theory Spec2Isabelle
  imports Complex_Main
begin

section \<open>Tensors and errors\<close>

text \<open>
  The three source files compute with torch tensors of rank one and two. A rank-one
  tensor is the list of its entries, a rank-two tensor the list of its rows (so a
  rank-two tensor without rows carries no width). Entries are real numbers: rounding,
  infinities and NaN of 32-bit floats are outside the model, and integer tensors
  (node types, indices) are tensors whose entries happen to be whole numbers.
  A torch operation stands for the function it computes on the arguments its signature
  accepts. A call with an argument of a type the signature does not accept fails with
  \<open>TypeError\<close>, an attribute that an object does not have with \<open>AttributeError\<close>, and
  an operation whose operands cannot be broadcast together with torch's
  \<open>RuntimeError\<close>.
\<close>

datatype error =
    KeyError string
  | TypeError
  | IndexError
  | RuntimeError
  | AttributeError
  | AssertionError string
  | Exception string

datatype tensor = Vec "real list" | Mat "real list list"

text \<open>The modules that \<open>cloth_model.py\<close> and \<open>deform_model.py\<close> import as cores.\<close>

datatype core_module =
    encode_process_decode
  | encode_process_decode_max_pooling
  | encode_process_decode_lstm
  | encode_process_decode_graph_structure_watcher
  | encode_process_decode_hub

text \<open>
  Python values that appear as configuration: constructor arguments, entries of
  \<open>params\<close>, flags. \<open>PyObject n\<close> is an object whose \<open>__name__\<close> is \<open>n\<close>.
\<close>

datatype pyval =
    PyNone
  | PyBool bool
  | PyInt int
  | PyStr string
  | PyModule core_module
  | PyObject string

fun truthy :: "pyval \<Rightarrow> bool" where
  "truthy PyNone = False"
| "truthy (PyBool b) = b"
| "truthy (PyInt i) = (i \<noteq> 0)"
| "truthy (PyStr s) = (s \<noteq> [])"
| "truthy (PyModule m) = True"
| "truthy (PyObject n) = True"

text \<open>Sequencing of steps that may raise: the first error ends the computation.\<close>

definition and_then :: "error + 'a \<Rightarrow> ('a \<Rightarrow> error + 'b) \<Rightarrow> error + 'b" where
  "and_then m f = (case m of Inl e \<Rightarrow> Inl e | Inr v \<Rightarrow> f v)"

fun sequence :: "(error + 'a) list \<Rightarrow> error + 'a list" where
  "sequence [] = Inr []"
| "sequence (x # xs) =
     (case x of
        Inl e \<Rightarrow> Inl e
      | Inr v \<Rightarrow> (case sequence xs of Inl e \<Rightarrow> Inl e | Inr vs \<Rightarrow> Inr (v # vs)))"

text \<open>
  Broadcasting along one dimension: equal sizes combine entry by entry, a
  dimension of size one is repeated, anything else is an error.
\<close>

definition broadcast :: "('a \<Rightarrow> 'b \<Rightarrow> 'c) \<Rightarrow> 'a list \<Rightarrow> 'b list \<Rightarrow> error + 'c list" where
  "broadcast f xs ys =
     (if length xs = length ys then Inr (map2 f xs ys)
      else if length xs = 1 then Inr (map (f (hd xs)) ys)
      else if length ys = 1 then Inr (map (\<lambda>x. f x (hd ys)) xs)
      else Inl RuntimeError)"

fun tensor_op :: "(real \<Rightarrow> real \<Rightarrow> real) \<Rightarrow> tensor \<Rightarrow> tensor \<Rightarrow> error + tensor" where
  "tensor_op f (Vec a) (Vec b) = map_sum id Vec (broadcast f a b)"
| "tensor_op f (Mat A) (Vec b) = map_sum id Mat (sequence (map (\<lambda>r. broadcast f r b) A))"
| "tensor_op f (Vec a) (Mat B) = map_sum id Mat (sequence (map (\<lambda>r. broadcast f a r) B))"
| "tensor_op f (Mat A) (Mat B) =
     (case broadcast (\<lambda>r s. broadcast f r s) A B of
        Inl e \<Rightarrow> Inl e
      | Inr rs \<Rightarrow> map_sum id Mat (sequence rs))"

fun tensor_map :: "(real \<Rightarrow> real) \<Rightarrow> tensor \<Rightarrow> tensor" where
  "tensor_map f (Vec a) = Vec (map f a)"
| "tensor_map f (Mat A) = Mat (map (map f) A)"

text \<open>\<open>t.size()\<close>: the list of dimension sizes.\<close>

fun tensor_size :: "tensor \<Rightarrow> nat list" where
  "tensor_size (Vec a) = [length a]"
| "tensor_size (Mat A) = [length A, (case A of [] \<Rightarrow> 0 | r # _ \<Rightarrow> length r)]"

text \<open>\<open>torch.sum(t, dim=0)\<close>: the sum of the entries of a rank-one tensor, the column
  sums of a rank-two tensor.\<close>

fun column_sums :: "real list list \<Rightarrow> real list" where
  "column_sums [] = []"
| "column_sums [r] = r"
| "column_sums (r # rs) = map2 (+) r (column_sums rs)"

fun sum_dim0 :: "tensor \<Rightarrow> real list" where
  "sum_dim0 (Vec a) = [sum_list a]"
| "sum_dim0 (Mat A) = column_sums A"

section \<open>normalization.py: the online normalizer\<close>

text \<open>
  The fields of \<open>Normalizer\<close>. \<open>_acc_count\<close> and \<open>_num_accumulations\<close> are tensors
  with one entry, \<open>_acc_sum\<close> and \<open>_acc_sum_squared\<close> have \<open>size\<close> entries. The
  constructor's \<open>name\<close> argument is not stored.
\<close>

record normalizer =
  max_accumulations :: int
  std_epsilon :: real
  acc_count :: real
  num_accumulations :: real
  acc_sum :: "real list"
  acc_sum_squared :: "real list"

definition Normalizer_init :: "nat \<Rightarrow> int \<Rightarrow> real \<Rightarrow> normalizer" where
  "Normalizer_init sz max_acc eps =
     \<lparr> max_accumulations = max_acc, std_epsilon = eps, acc_count = 0,
       num_accumulations = 0, acc_sum = replicate sz 0,
       acc_sum_squared = replicate sz 0 \<rparr>"

text \<open>The defaults of the constructor: \<open>max_accumulations=10**6\<close>, \<open>std_epsilon=1e-8\<close>.\<close>

definition Normalizer_default :: "nat \<Rightarrow> normalizer" where
  "Normalizer_default sz = Normalizer_init sz (10 ^ 6) (1 / 10 ^ 8)"

text \<open>An argument of a torch function: a tensor or a Python float.\<close>

datatype targ = TensorArg tensor | FloatArg real

text \<open>
  \<open>torch.maximum(input, other)\<close> takes two tensors and returns their maximum, entry by
  entry; it has no form for a Python number, which is a \<open>TypeError\<close>.
\<close>

fun torch_maximum :: "targ \<Rightarrow> targ \<Rightarrow> error + tensor" where
  "torch_maximum (TensorArg a) (TensorArg b) = tensor_op max a b"
| "torch_maximum _ _ = Inl TypeError"

text \<open>
  \<open>x.add(...)\<close> returns a new tensor and leaves \<open>x\<close> as it is (the method that
  changes \<open>x\<close> is \<open>add_\<close>). With one argument it is the sum; with two positional
  arguments it is the form \<open>x.add(alpha, other)\<close> of a number and a tensor, which
  yields \<open>x + alpha * other\<close>; any other arguments are a \<open>TypeError\<close>.
\<close>

fun Tensor_add :: "tensor \<Rightarrow> targ list \<Rightarrow> error + tensor" where
  "Tensor_add x [TensorArg other] = tensor_op (+) x other"
| "Tensor_add x [FloatArg c] = Inr (tensor_map (\<lambda>v. v + c) x)"
| "Tensor_add x [FloatArg alpha, TensorArg other] = tensor_op (\<lambda>v w. v + alpha * w) x other"
| "Tensor_add x _ = Inl TypeError"

text \<open>\<open>t.size()\<close> is a \<open>torch.Size\<close>, a tuple; it has no method \<open>tolist\<close>.\<close>

definition Size_tolist :: "nat list \<Rightarrow> error + nat list" where
  "Size_tolist shape = Inl AttributeError"

text \<open>\<open>_mean\<close>, lines 66 to 68. The second argument of \<open>torch.maximum\<close> at line 67 is
  the Python float \<open>1.\<close>.\<close>

definition Normalizer_mean :: "normalizer \<Rightarrow> error + tensor" where
  "Normalizer_mean self =
     and_then (torch_maximum (TensorArg (Vec [acc_count self])) (FloatArg 1)) (\<lambda>safe_count.
     tensor_op (/) (Vec (acc_sum self)) safe_count)"

text \<open>\<open>_std_with_epsilon\<close>, lines 70 to 73. Line 71 is the call of line 67 again, and
  line 73 passes the Python float \<open>std_epsilon\<close> to \<open>torch.maximum\<close>.\<close>

definition Normalizer_std_with_epsilon :: "normalizer \<Rightarrow> error + tensor" where
  "Normalizer_std_with_epsilon self =
     and_then (torch_maximum (TensorArg (Vec [acc_count self])) (FloatArg 1)) (\<lambda>safe_count.
     and_then (tensor_op (/) (Vec (acc_sum_squared self)) safe_count) (\<lambda>mean_of_squares.
     and_then (Normalizer_mean self) (\<lambda>mean.
     and_then (tensor_op (-) mean_of_squares (tensor_map (\<lambda>m. m ^ 2) mean)) (\<lambda>variance.
     let std = tensor_map sqrt variance
     in torch_maximum (TensorArg std) (FloatArg (std_epsilon self))))))"

text \<open>
  \<open>_accumulate\<close>, lines 49 to 64. Line 52 asks the size of the batch for \<open>tolist\<close>. The
  count that would follow is the number of dimensions of the batch; the line it
  replaces, kept as a comment in the source, took the number of rows
  (\<open>tf.shape(batched_data)[0]\<close>). Lines 61 to 64 call \<open>add\<close> with two positional
  arguments of which the first is a tensor, and drop what it returns. The method
  assigns to no attribute: the normalizer after it is the normalizer before it.
\<close>

definition Normalizer_accumulate :: "normalizer \<Rightarrow> tensor \<Rightarrow> error + normalizer" where
  "Normalizer_accumulate self batched_data =
     and_then (Size_tolist (tensor_size batched_data)) (\<lambda>shape.
     let dimension = length shape;
         count = Vec [real dimension];
         data_sum = Vec (sum_dim0 batched_data);
         squared_data_sum = Vec (sum_dim0 (tensor_map (\<lambda>x. x ^ 2) batched_data))
     in and_then (Tensor_add (Vec (acc_sum self))
                    [TensorArg (Vec (acc_sum self)), TensorArg data_sum]) (\<lambda>dropped.
        and_then (Tensor_add (Vec (acc_sum_squared self))
                    [TensorArg (Vec (acc_sum_squared self)), TensorArg squared_data_sum])
          (\<lambda>dropped.
        and_then (Tensor_add (Vec [acc_count self])
                    [TensorArg (Vec [acc_count self]), TensorArg count]) (\<lambda>dropped.
        and_then (Tensor_add (Vec [num_accumulations self])
                    [TensorArg (Vec [num_accumulations self]), FloatArg 1]) (\<lambda>dropped.
        Inr self)))))"

text \<open>\<open>__call__\<close>, lines 37 to 42: the normalizer after the call, and the value returned
  or the error raised. Line 42 calls \<open>_mean\<close> before \<open>_std_with_epsilon\<close>.\<close>

definition Normalizer_call :: "normalizer \<Rightarrow> tensor \<Rightarrow> bool \<Rightarrow> normalizer \<times> (error + tensor)" where
  "Normalizer_call self batched_data accumulate =
     (case (if accumulate \<and> num_accumulations self < of_int (max_accumulations self)
            then Normalizer_accumulate self batched_data else Inr self) of
        Inl e \<Rightarrow> (self, Inl e)
      | Inr self' \<Rightarrow>
          (self',
           and_then (Normalizer_mean self') (\<lambda>mean.
           and_then (tensor_op (-) batched_data mean) (\<lambda>centred.
           and_then (Normalizer_std_with_epsilon self') (\<lambda>std.
           tensor_op (/) centred std)))))"

text \<open>
  Python's binding of the positional arguments that follow \<open>batched_data\<close> to the
  signature \<open>__call__(self, batched_data, accumulate=True)\<close>: none leaves the default,
  one is \<open>accumulate\<close>, more are a \<open>TypeError\<close>.
\<close>

definition Normalizer_apply :: "normalizer \<Rightarrow> tensor \<Rightarrow> pyval list \<Rightarrow> normalizer \<times> (error + tensor)" where
  "Normalizer_apply self batched_data rest =
     (case rest of
        [] \<Rightarrow> Normalizer_call self batched_data True
      | [accumulate] \<Rightarrow> Normalizer_call self batched_data (truthy accumulate)
      | _ \<Rightarrow> (self, Inl TypeError))"

text \<open>\<open>inverse\<close>, lines 45 to 47. Line 47 calls \<open>_std_with_epsilon\<close> before \<open>_mean\<close>.\<close>

definition Normalizer_inverse :: "normalizer \<Rightarrow> tensor \<Rightarrow> error + tensor" where
  "Normalizer_inverse self normalized_batch_data =
     and_then (Normalizer_std_with_epsilon self) (\<lambda>std.
     and_then (tensor_op (*) normalized_batch_data std) (\<lambda>scaled.
     and_then (Normalizer_mean self) (\<lambda>mean.
     tensor_op (+) scaled mean)))"

section \<open>Tensor operations of the graph builders\<close>

definition getitem :: "(string \<rightharpoonup> 'v) \<Rightarrow> string \<Rightarrow> error + 'v" where
  "getitem d key = (case d key of None \<Rightarrow> Inl (KeyError key) | Some v \<Rightarrow> Inr v)"

text \<open>\<open>t[:, 0]\<close>: the first column of a rank-two tensor.\<close>

fun column0 :: "tensor \<Rightarrow> error + real list" where
  "column0 (Vec a) = Inl IndexError"
| "column0 (Mat A) = (if [] \<in> set A then Inl IndexError else Inr (map hd A))"

text \<open>\<open>.to(torch.int64)\<close> rounds towards zero.\<close>

definition to_int64 :: "real \<Rightarrow> int" where
  "to_int64 x = (if 0 \<le> x then \<lfloor>x\<rfloor> else \<lceil>x\<rceil>)"

text \<open>\<open>F.one_hot(t, num_classes)\<close> rejects a class outside \<open>[0, num_classes)\<close>.\<close>

definition one_hot :: "int list \<Rightarrow> nat \<Rightarrow> error + tensor" where
  "one_hot classes num_classes =
     (if \<exists>c \<in> set classes. c < 0 \<or> int num_classes \<le> c then Inl RuntimeError
      else Inr (Mat (map (\<lambda>c. map (\<lambda>k. if int k = c then 1 else 0) [0..<num_classes]) classes)))"

text \<open>\<open>torch.index_select(t, 0, index)\<close>.\<close>

fun index_select :: "tensor \<Rightarrow> nat list \<Rightarrow> error + tensor" where
  "index_select (Vec a) index =
     (if \<exists>i \<in> set index. length a \<le> i then Inl IndexError else Inr (Vec (map (\<lambda>i. a ! i) index)))"
| "index_select (Mat A) index =
     (if \<exists>i \<in> set index. length A \<le> i then Inl IndexError else Inr (Mat (map (\<lambda>i. A ! i) index)))"

definition row_norm :: "real list \<Rightarrow> real" where
  "row_norm r = sqrt (sum_list (map (\<lambda>x. x ^ 2) r))"

text \<open>\<open>torch.norm(t, dim=-1, keepdim=True)\<close> and \<open>torch.norm(t, dim=-1)\<close>; the norm of a
  rank-one tensor has no dimension left and is kept as a single entry.\<close>

fun norm_keepdim :: "tensor \<Rightarrow> tensor" where
  "norm_keepdim (Vec a) = Vec [row_norm a]"
| "norm_keepdim (Mat A) = Mat (map (\<lambda>r. [row_norm r]) A)"

fun norm_last :: "tensor \<Rightarrow> tensor" where
  "norm_last (Vec a) = Vec [row_norm a]"
| "norm_last (Mat A) = Vec (map row_norm A)"

text \<open>\<open>torch.cat((a, b), dim=-1)\<close> and its extension to more operands.\<close>

fun cat2 :: "tensor \<Rightarrow> tensor \<Rightarrow> error + tensor" where
  "cat2 (Vec a) (Vec b) = Inr (Vec (a @ b))"
| "cat2 (Mat A) (Mat B) =
     (if length A = length B then Inr (Mat (map2 (@) A B)) else Inl RuntimeError)"
| "cat2 _ _ = Inl RuntimeError"

fun cat_last :: "tensor list \<Rightarrow> error + tensor" where
  "cat_last [] = Inl RuntimeError"
| "cat_last [t] = Inr t"
| "cat_last (t # ts) = and_then (cat_last ts) (cat2 t)"

fun zeros_like :: "tensor \<Rightarrow> tensor" where
  "zeros_like t = tensor_map (\<lambda>x. 0) t"

text \<open>
  \<open>torch.where(condition, a, b)\<close> for a condition of zeros and ones: the three operands are
  broadcast together, and an entry is taken from \<open>a\<close> where the condition is one,
  from \<open>b\<close> where it is zero.
\<close>

definition tensor_where :: "tensor \<Rightarrow> tensor \<Rightarrow> tensor \<Rightarrow> error + tensor" where
  "tensor_where condition a b =
     and_then (tensor_op (\<lambda>m x. m * x) condition a) (\<lambda>from_a.
     and_then (tensor_op (\<lambda>m y. (1 - m) * y) condition b) (\<lambda>from_b.
     tensor_op (+) from_a from_b))"

text \<open>\<open>torch.stack([v] * n, dim=1)\<close> for a rank-one \<open>v\<close>; an empty list cannot be stacked.\<close>

definition stack_dim1 :: "real list \<Rightarrow> nat \<Rightarrow> error + tensor" where
  "stack_dim1 v n = (if n = 0 then Inl RuntimeError else Inr (Mat (map (replicate n) v)))"

section \<open>What the models import\<close>

text \<open>
  \<open>common.py\<close> and the core modules are not among the three files. Of \<open>common\<close> the
  models use the size of the \<open>NodeType\<close> enumeration, the values of its members
  \<open>OBSTACLE\<close> and \<open>HANDLE\<close>, and \<open>triangles_to_edges\<close>, which turns the cells into the
  senders and the receivers of the mesh edges (with \<open>deform=True\<close>: the entry
  \<open>two_way_connectivity\<close> of its result). They are parameters of everything below.
\<close>

record common =
  NodeType_SIZE :: nat
  NodeType_OBSTACLE :: int
  NodeType_HANDLE :: int
  triangles_to_edges :: "tensor \<Rightarrow> error + (nat list \<times> nat list)"
  triangles_to_edges_deform :: "tensor \<Rightarrow> error + (nat list \<times> nat list)"

text \<open>
  The values the graph builders hand to the core: \<open>EdgeSet(name, features, receivers,
  senders)\<close>, \<open>MultiGraph(node_features, edge_sets)\<close>, the hub core's
  \<open>MultiGraphWithPos(node_features, edge_sets, world_pos, mesh_pos)\<close> and the ripple
  core's \<open>MultiGraphWithPos(node_features, edge_sets, target_feature, mesh_pos,
  model_type, node_dynamic)\<close>.
\<close>

datatype edge_set = EdgeSet string tensor "nat list" "nat list"

datatype graph =
    MultiGraph tensor "edge_set list"
  | MultiGraphWithPos_hub tensor "edge_set list" tensor tensor
  | MultiGraphWithPos tensor "edge_set list" tensor tensor string tensor

text \<open>The attributes that both \<open>Model\<close> classes set, and those of each.\<close>

record 'lm model =
  params :: "string \<rightharpoonup> pyval"
  output_normalizer :: normalizer
  node_normalizer :: normalizer
  core_model_name :: pyval
  core_model :: core_module
  message_passing_steps :: pyval
  message_passing_aggregator :: pyval
  learned_model :: 'lm

record 'lm cloth_model = "'lm model" +
  edge_normalizer :: normalizer

record 'lm deform_model = "'lm model" +
  node_dynamic_normalizer :: normalizer
  mesh_edge_normalizer :: normalizer
  world_edge_normalizer :: normalizer
  model_type :: string
  displacement_base :: pyval
  attention :: pyval
  ripple_used :: pyval
  ripple_generation :: "pyval option"
  ripple_generation_number :: "pyval option"
  ripple_node_selection :: "pyval option"
  ripple_node_selection_random_top_n :: "pyval option"
  ripple_node_connection :: "pyval option"
  ripple_node_ncross :: "pyval option"

text \<open>
  The learned core is the object that \<open>EncodeProcessDecode\<close> of the core module
  returns. It is taken as a function of the arguments it is called with: the graph
  in the cloth model; the graph, the two edge normalizers and \<open>is_training\<close> in the
  deforming-plate model.
\<close>

type_synonym cloth_core = "graph \<Rightarrow> error + tensor"
type_synonym deform_core = "graph \<Rightarrow> normalizer \<Rightarrow> normalizer \<Rightarrow> bool \<Rightarrow> error + tensor"

text \<open>Steps that may raise and may change the model: the model after the step comes
  first; a step that raises ends the computation with the model as it is then.\<close>

definition then_with ::
  "'s \<times> (error + 'a) \<Rightarrow> ('s \<Rightarrow> 'a \<Rightarrow> 's \<times> (error + 'b)) \<Rightarrow> 's \<times> (error + 'b)" where
  "then_with m f = (case m of (s, Inl e) \<Rightarrow> (s, Inl e) | (s, Inr v) \<Rightarrow> f s v)"

text \<open>A call of the normalizer held in an attribute, with the positional arguments
  that follow the batch.\<close>

definition apply_normalizer ::
  "('s \<Rightarrow> normalizer) \<Rightarrow> ((normalizer \<Rightarrow> normalizer) \<Rightarrow> 's \<Rightarrow> 's) \<Rightarrow> 's \<Rightarrow> tensor \<Rightarrow>
     pyval list \<Rightarrow> 's \<times> (error + tensor)" where
  "apply_normalizer attribute update self batched_data rest =
     (case Normalizer_apply (attribute self) batched_data rest of
        (n, result) \<Rightarrow> (update (\<lambda>_. n) self, result))"

section \<open>cloth_model.py\<close>

definition select_core_model :: "string \<Rightarrow> core_module" where
  "select_core_model name =
     (case map_of
        [(''encode_process_decode'', encode_process_decode),
         (''encode_process_decode_graph_structure_watcher'',
            encode_process_decode_graph_structure_watcher),
         (''encode_process_decode_hub'', encode_process_decode_hub),
         (''encode_process_decode_max_pooling'', encode_process_decode_max_pooling),
         (''encode_process_decode_lstm'', encode_process_decode_lstm)] name of
        Some m \<Rightarrow> m
      | None \<Rightarrow> encode_process_decode)"

text \<open>\<open>__init__\<close>, lines 36 to 55; \<open>EncodeProcessDecode\<close> is the class of the chosen
  core module, called with the keyword arguments in the order of the source.\<close>

definition cloth_init ::
  "(core_module \<Rightarrow> (string \<times> pyval) list \<Rightarrow> 'lm) \<Rightarrow> common \<Rightarrow> (string \<rightharpoonup> pyval) \<Rightarrow> string \<Rightarrow>
     pyval \<Rightarrow> pyval \<Rightarrow> error + 'lm cloth_model" where
  "cloth_init EncodeProcessDecode common params_arg name aggregator steps =
     (let chosen = select_core_model name
      in and_then (getitem params_arg ''size'') (\<lambda>output_size.
         Inr \<lparr> params = params_arg,
               output_normalizer = Normalizer_default 3,
               node_normalizer = Normalizer_default (3 + NodeType_SIZE common),
               core_model_name = PyStr name,
               core_model = chosen,
               message_passing_steps = steps,
               message_passing_aggregator = aggregator,
               learned_model = EncodeProcessDecode chosen
                 [(''output_size'', output_size), (''latent_size'', PyInt 128),
                  (''num_layers'', PyInt 2), (''message_passing_steps'', steps),
                  (''message_passing_aggregator'', aggregator)],
               edge_normalizer = Normalizer_default 7 \<rparr>))"

text \<open>The tensors that \<open>_build_graph\<close> computes before it calls a normalizer, lines 77
  to 97: node features, edge features, senders, receivers, world and mesh positions.\<close>

definition cloth_features ::
  "common \<Rightarrow> (string \<rightharpoonup> tensor) \<Rightarrow>
     error + (tensor \<times> tensor \<times> nat list \<times> nat list \<times> tensor \<times> tensor)" where
  "cloth_features common inputs =
     and_then (getitem inputs ''world_pos'') (\<lambda>world_pos.
     and_then (getitem inputs ''prev|world_pos'') (\<lambda>prev_world_pos.
     and_then (getitem inputs ''node_type'') (\<lambda>node_type.
     and_then (tensor_op (-) world_pos prev_world_pos) (\<lambda>velocity.
     and_then (column0 node_type) (\<lambda>types.
     and_then (one_hot (map to_int64 types) (NodeType_SIZE common)) (\<lambda>node_type.
     and_then (cat_last [velocity, node_type]) (\<lambda>node_features.
     and_then (getitem inputs ''cells'') (\<lambda>cells.
     and_then (triangles_to_edges common cells) (\<lambda>(senders, receivers).
     and_then (getitem inputs ''mesh_pos'') (\<lambda>mesh_pos.
     and_then (index_select world_pos senders) (\<lambda>world_s.
     and_then (index_select world_pos receivers) (\<lambda>world_r.
     and_then (tensor_op (-) world_s world_r) (\<lambda>relative_world_pos.
     and_then (index_select mesh_pos senders) (\<lambda>mesh_s.
     and_then (index_select mesh_pos receivers) (\<lambda>mesh_r.
     and_then (tensor_op (-) mesh_s mesh_r) (\<lambda>relative_mesh_pos.
     and_then (cat_last [relative_world_pos, norm_keepdim relative_world_pos,
                         relative_mesh_pos, norm_keepdim relative_mesh_pos]) (\<lambda>edge_features.
     Inr (node_features, edge_features, senders, receivers, world_pos, mesh_pos))))))))))))))))))"

text \<open>\<open>_build_graph\<close>, lines 99 to 108: both normalizers are called with \<open>is_training\<close>
  as \<open>accumulate\<close>. The model after the call comes first in the result.\<close>

definition cloth_build_graph ::
  "common \<Rightarrow> cloth_core cloth_model \<Rightarrow> (string \<rightharpoonup> tensor) \<Rightarrow> bool \<Rightarrow>
     cloth_core cloth_model \<times> (error + graph)" where
  "cloth_build_graph common self inputs is_training =
     then_with (self, cloth_features common inputs)
       (\<lambda>self (node_features, edge_features, senders, receivers, world_pos, mesh_pos).
     then_with (apply_normalizer edge_normalizer edge_normalizer_update self edge_features
                  [PyBool is_training]) (\<lambda>self features.
     let mesh_edges = EdgeSet ''mesh_edges'' features receivers senders in
     then_with (apply_normalizer node_normalizer node_normalizer_update self node_features
                  [PyBool is_training]) (\<lambda>self normalized.
     (self, Inr (if core_model self = encode_process_decode_hub
                 then MultiGraphWithPos_hub normalized [mesh_edges] world_pos mesh_pos
                 else MultiGraph normalized [mesh_edges])))))"

text \<open>\<open>_update\<close>, lines 117 to 126.\<close>

definition cloth_update ::
  "'lm cloth_model \<Rightarrow> (string \<rightharpoonup> tensor) \<Rightarrow> tensor \<Rightarrow> error + tensor" where
  "cloth_update self inputs per_node_network_output =
     and_then (Normalizer_inverse (output_normalizer self) per_node_network_output)
       (\<lambda>acceleration.
     and_then (getitem inputs ''world_pos'') (\<lambda>cur_position.
     and_then (getitem inputs ''prev|world_pos'') (\<lambda>prev_position.
     and_then (tensor_op (+) (tensor_map (\<lambda>x. 2 * x) cur_position) acceleration) (\<lambda>s.
     tensor_op (-) s prev_position))))"

text \<open>\<open>forward\<close>, lines 110 to 115.\<close>

definition cloth_forward ::
  "common \<Rightarrow> cloth_core cloth_model \<Rightarrow> (string \<rightharpoonup> tensor) \<Rightarrow> bool \<Rightarrow>
     cloth_core cloth_model \<times> (error + tensor)" where
  "cloth_forward common self inputs is_training =
     then_with (cloth_build_graph common self inputs is_training) (\<lambda>self graph.
       (if is_training then (self, learned_model self graph)
        else (self, and_then (learned_model self graph) (cloth_update self inputs))))"

section \<open>deform_model.py\<close>

subsection \<open>The segment reducer\<close>

text \<open>Index tensors of rank one and two, as \<open>segment_ids\<close> may be.\<close>

datatype itensor = IVec "int list" | IMat "int list list"

fun itensor_size :: "itensor \<Rightarrow> nat list" where
  "itensor_size (IVec a) = [length a]"
| "itensor_size (IMat A) = [length A, (case A of [] \<Rightarrow> 0 | r # _ \<Rightarrow> length r)]"

text \<open>
  The reductions of \<open>torch_scatter\<close> along dimension 0 with \<open>dim_size\<close> groups: entry
  \<open>g\<close> of the result reduces the source entries whose index is \<open>g\<close>, column by column
  in rank two. An index outside \<open>[0, dim_size)\<close> is taken as an error; what
  \<open>torch_scatter\<close> does with it depends on the reduction and the device, and nothing
  below relies on it. \<open>reduce\<close> is the reduction of the values of one group, in the
  order of the source.
\<close>

fun scatter :: "(real list \<Rightarrow> real) \<Rightarrow> tensor \<Rightarrow> itensor \<Rightarrow> nat \<Rightarrow> error + tensor" where
  "scatter reduce (Vec a) (IVec ix) dim_size =
     (if \<exists>i \<in> set ix. i < 0 \<or> int dim_size \<le> i then Inl RuntimeError
      else Inr (Vec (map (\<lambda>g. reduce (map fst (filter (\<lambda>(x, i). i = int g) (zip a ix))))
                     [0..<dim_size])))"
| "scatter reduce (Mat A) (IMat IX) dim_size =
     (if \<exists>row \<in> set IX. \<exists>i \<in> set row. i < 0 \<or> int dim_size \<le> i then Inl RuntimeError
      else Inr (Mat (map (\<lambda>g. map (\<lambda>j. reduce (map (\<lambda>(r, ir). r ! j)
                                        (filter (\<lambda>(r, ir). ir ! j = int g) (zip A IX))))
                                [0..<tensor_size (Mat A) ! 1])
                     [0..<dim_size])))"
| "scatter reduce _ _ dim_size = Inl RuntimeError"

text \<open>A group without entries reduces to zero in each of the four reductions.\<close>

definition scatter_add :: "tensor \<Rightarrow> itensor \<Rightarrow> nat \<Rightarrow> error + tensor" where
  "scatter_add = scatter sum_list"

definition scatter_max :: "tensor \<Rightarrow> itensor \<Rightarrow> nat \<Rightarrow> error + tensor" where
  "scatter_max = scatter (\<lambda>vs. if vs = [] then 0 else Max (set vs))"

definition scatter_mean :: "tensor \<Rightarrow> itensor \<Rightarrow> nat \<Rightarrow> error + tensor" where
  "scatter_mean = scatter (\<lambda>vs. sum_list vs / max (real (length vs)) 1)"

definition scatter_min :: "tensor \<Rightarrow> itensor \<Rightarrow> nat \<Rightarrow> error + tensor" where
  "scatter_min = scatter (\<lambda>vs. if vs = [] then 0 else Min (set vs))"

text \<open>
  \<open>unsorted_segment_operation\<close>, lines 70 to 101. A rank-one \<open>segment_ids\<close> is
  repeated along the rows of \<open>data\<close> (lines 82 to 84); \<open>torch.zeros(*shape)\<close> at line
  89 rejects a negative \<open>num_segments\<close>. The data are taken as a floating tensor,
  on which the conversions \<open>data.float()\<close> and \<open>result.type(data.dtype)\<close> change
  nothing.
\<close>

definition unsorted_segment_operation :: "tensor \<Rightarrow> itensor \<Rightarrow> int \<Rightarrow> string \<Rightarrow> error + tensor" where
  "unsorted_segment_operation data segment_ids num_segments operation =
     (if \<not> list_all (\<lambda>i. i \<in> set (tensor_size data)) (itensor_size segment_ids)
      then Inl (AssertionError ''segment_ids.shape should be a prefix of data.shape'')
      else
        let segment_ids =
              (case segment_ids of
                 IVec ix \<Rightarrow>
                   (case data of
                      Vec a \<Rightarrow> IVec ix
                    | Mat A \<Rightarrow> IMat (map (replicate (tensor_size data ! 1)) ix))
               | IMat IX \<Rightarrow> IMat IX)
        in if tensor_size data \<noteq> itensor_size segment_ids
           then Inl (AssertionError ''data.shape and segment_ids.shape should be equal'')
           else if num_segments < 0 then Inl RuntimeError
           else if operation = ''sum'' then scatter_add data segment_ids (nat num_segments)
           else if operation = ''max'' then scatter_max data segment_ids (nat num_segments)
           else if operation = ''mean'' then scatter_mean data segment_ids (nat num_segments)
           else if operation = ''min'' then scatter_min data segment_ids (nat num_segments)
           else Inl (Exception ''Invalid operation type!''))"

subsection \<open>World edges\<close>

definition radius :: real where
  "radius = 6 / 1000"

text \<open>\<open>torch.cdist(P, P, p=2)\<close>.\<close>

definition cdist :: "real list list \<Rightarrow> real list list" where
  "cdist P = map (\<lambda>a. map (\<lambda>b. row_norm (map2 (-) a b)) P) P"

definition fill_diagonal_zero :: "real list list \<Rightarrow> real list list" where
  "fill_diagonal_zero M = map (\<lambda>i. (M ! i)[i := 0]) [0..<length M]"

text \<open>\<open>M[senders, receivers] = 0\<close>: every listed entry is set to zero; an index outside
  the matrix is an error.\<close>

definition index_put_zero :: "real list list \<Rightarrow> (nat \<times> nat) list \<Rightarrow> error + real list list" where
  "index_put_zero M pairs =
     (if \<exists>(s, r) \<in> set pairs. length M \<le> s \<or> length (M ! s) \<le> r then Inl IndexError
      else Inr (map (\<lambda>i. map (\<lambda>j. if (i, j) \<in> set pairs then 0 else M ! i ! j)
                            [0..<length (M ! i)])
                [0..<length M]))"

text \<open>\<open>torch.nonzero(M, as_tuple=True)\<close>: the row and the column indices of the entries
  that are not zero, row by row.\<close>

definition nonzero :: "real list list \<Rightarrow> nat list \<times> nat list" where
  "nonzero M =
     (let entries = concat (map (\<lambda>i. map (\<lambda>j. (i, j))
                                     (filter (\<lambda>j. M ! i ! j \<noteq> 0) [0..<length (M ! i)]))
                            [0..<length M])
      in (map fst entries, map snd entries))"

text \<open>
  Lines 129 to 131: \<open>torch.stack([v] * n, dim=1)\<close> has \<open>v\<close> as each of its \<open>n\<close>
  columns, and its transpose has \<open>v\<close> as each of its \<open>n\<close> rows.
\<close>

definition stack_dim1_transposed :: "real list \<Rightarrow> nat \<Rightarrow> error + tensor" where
  "stack_dim1_transposed v n = (if n = 0 then Inl RuntimeError else Inr (Mat (replicate n v)))"

text \<open>
  The world edges of \<open>_build_graph\<close>, lines 121 to 134: \<open>world_senders\<close> and
  \<open>world_receivers\<close>, the row and the column indices that are left in the connection
  matrix.
\<close>

definition world_edge_indices ::
  "common \<Rightarrow> tensor \<Rightarrow> nat list \<Rightarrow> nat list \<Rightarrow> tensor \<Rightarrow> error + (nat list \<times> nat list)" where
  "world_edge_indices common world_pos senders receivers node_type =
     (case world_pos of
        Vec a \<Rightarrow> Inl RuntimeError
      | Mat P \<Rightarrow>
          (let world_distance_matrix = cdist P;
               world_connection_matrix =
                 map (map (\<lambda>d. if d < radius then 1 else 0)) world_distance_matrix;
               world_connection_matrix = fill_diagonal_zero world_connection_matrix
           in and_then (broadcast Pair senders receivers) (\<lambda>mesh_pairs.
              and_then (index_put_zero world_connection_matrix mesh_pairs)
                (\<lambda>world_connection_matrix.
              and_then (column0 node_type) (\<lambda>types.
              let no_connection_mask =
                    map (\<lambda>t. if t = of_int (NodeType_OBSTACLE common) \<or>
                                 t = of_int (NodeType_HANDLE common) then 1 else 0) types
              in and_then (stack_dim1_transposed no_connection_mask (length P))
                   (\<lambda>no_connection_mask.
                 and_then (tensor_where no_connection_mask (Vec [0])
                             (Mat world_connection_matrix)) (\<lambda>world_connection_matrix.
                 (case world_connection_matrix of
                    Vec a \<Rightarrow> Inl RuntimeError
                  | Mat C \<Rightarrow> Inr (nonzero C)))))))))"

subsection \<open>The model\<close>

fun name_of_module :: "core_module \<Rightarrow> string" where
  "name_of_module encode_process_decode = ''encode_process_decode''"
| "name_of_module encode_process_decode_max_pooling = ''encode_process_decode_max_pooling''"
| "name_of_module encode_process_decode_lstm = ''encode_process_decode_lstm''"
| "name_of_module encode_process_decode_graph_structure_watcher =
     ''encode_process_decode_graph_structure_watcher''"
| "name_of_module encode_process_decode_hub = ''encode_process_decode_hub''"

text \<open>The attribute \<open>__name__\<close>.\<close>

fun dunder_name :: "pyval \<Rightarrow> error + string" where
  "dunder_name (PyObject n) = Inr n"
| "dunder_name (PyModule m) = Inr (name_of_module m)"
| "dunder_name _ = Inl AttributeError"

text \<open>
  \<open>__init__\<close>, lines 19 to 68. The arguments follow the order of the signature. Line
  34 stores \<open>core_model_name\<close>; line 35 sets \<open>core_model\<close> to the module
  \<open>encode_process_decode\<close>. The six ripple attributes exist only when \<open>ripple_used\<close>
  holds.
\<close>

definition deform_init ::
  "(core_module \<Rightarrow> (string \<times> pyval) list \<Rightarrow> 'lm) \<Rightarrow> (string \<rightharpoonup> pyval) \<Rightarrow> pyval \<Rightarrow> pyval \<Rightarrow>
     pyval \<Rightarrow> pyval \<Rightarrow> pyval \<Rightarrow> pyval \<Rightarrow> pyval \<Rightarrow> pyval \<Rightarrow> pyval \<Rightarrow> pyval \<Rightarrow> pyval \<Rightarrow>
     error + 'lm deform_model" where
  "deform_init EncodeProcessDecode params_arg name aggregator steps attention_arg
     ripple_used_arg generation generation_number node_selection
     node_selection_random_top_n node_connection node_ncross =
     and_then (getitem params_arg ''model'') (\<lambda>model_class.
     and_then (dunder_name model_class) (\<lambda>model_type_name.
     and_then (getitem params_arg ''size'') (\<lambda>output_size.
     let ripple = (\<lambda>v. if truthy ripple_used_arg then Some v else None);
         chosen = encode_process_decode;
         shared = [(''output_size'', output_size), (''latent_size'', PyInt 128),
                   (''num_layers'', PyInt 2), (''message_passing_steps'', steps),
                   (''message_passing_aggregator'', aggregator),
                   (''attention'', attention_arg), (''ripple_used'', ripple_used_arg)]
     in Inr \<lparr> params = params_arg,
              output_normalizer = Normalizer_default 3,
              node_normalizer = Normalizer_default 3,
              core_model_name = name,
              core_model = chosen,
              message_passing_steps = steps,
              message_passing_aggregator = aggregator,
              learned_model =
                (if truthy ripple_used_arg
                 then EncodeProcessDecode chosen
                        (shared @
                         [(''ripple_generation'', generation),
                          (''ripple_generation_number'', generation_number),
                          (''ripple_node_selection'', node_selection),
                          (''ripple_node_selection_random_top_n'', node_selection_random_top_n),
                          (''ripple_node_connection'', node_connection),
                          (''ripple_node_ncross'', node_ncross)])
                 else EncodeProcessDecode chosen shared),
              node_dynamic_normalizer = Normalizer_default 1,
              mesh_edge_normalizer = Normalizer_default 8,
              world_edge_normalizer = Normalizer_default 4,
              model_type = model_type_name,
              displacement_base = PyNone,
              attention = attention_arg,
              ripple_used = ripple_used_arg,
              ripple_generation = ripple generation,
              ripple_generation_number = ripple generation_number,
              ripple_node_selection = ripple node_selection,
              ripple_node_selection_random_top_n = ripple node_selection_random_top_n,
              ripple_node_connection = ripple node_connection,
              ripple_node_ncross = ripple node_ncross \<rparr>)))"

text \<open>The comparison of the first column of \<open>node_type\<close> with a member of
  \<open>NodeType\<close>, as zeros and ones.\<close>

definition eq_mask :: "real list \<Rightarrow> int \<Rightarrow> real list" where
  "eq_mask types member = map (\<lambda>t. if t = of_int member then 1 else 0) types"

text \<open>Lines 105 to 140: what \<open>_build_graph\<close> computes before the first call of a
  normalizer.\<close>

definition deform_world_features ::
  "common \<Rightarrow> (string \<rightharpoonup> tensor) \<Rightarrow>
     error + (tensor \<times> tensor \<times> tensor \<times> tensor \<times> nat list \<times> nat list \<times> tensor \<times> tensor \<times>
              nat list \<times> nat list \<times> tensor)" where
  "deform_world_features common inputs =
     and_then (getitem inputs ''world_pos'') (\<lambda>world_pos.
     and_then (getitem inputs ''target|world_pos'') (\<lambda>target_world_pos.
     and_then (getitem inputs ''node_type'') (\<lambda>node_type.
     and_then (column0 node_type) (\<lambda>types.
     and_then (one_hot (map to_int64 types) (NodeType_SIZE common)) (\<lambda>one_hot_node_type.
     and_then (getitem inputs ''cells'') (\<lambda>cells.
     and_then (triangles_to_edges_deform common cells) (\<lambda>(senders, receivers).
     and_then (getitem inputs ''mesh_pos'') (\<lambda>mesh_pos.
     and_then (index_select mesh_pos senders) (\<lambda>mesh_s.
     and_then (index_select mesh_pos receivers) (\<lambda>mesh_r.
     and_then (tensor_op (-) mesh_s mesh_r) (\<lambda>relative_mesh_pos.
     and_then (world_edge_indices common world_pos senders receivers node_type)
       (\<lambda>(world_senders, world_receivers).
     and_then (index_select world_pos world_senders) (\<lambda>world_s.
     and_then (index_select world_pos world_receivers) (\<lambda>world_r.
     and_then (tensor_op (-) world_s world_r) (\<lambda>relative_world_pos.
     and_then (cat_last [relative_world_pos, norm_keepdim relative_world_pos])
       (\<lambda>world_edge_features.
     Inr (world_pos, target_world_pos, node_type, one_hot_node_type, senders, receivers,
          mesh_pos, relative_mesh_pos, world_senders, world_receivers,
          world_edge_features)))))))))))))))))"

text \<open>Lines 148 to 154.\<close>

definition deform_mesh_edge_features ::
  "tensor \<Rightarrow> nat list \<Rightarrow> nat list \<Rightarrow> tensor \<Rightarrow> error + (tensor \<times> tensor)" where
  "deform_mesh_edge_features world_pos senders receivers relative_mesh_pos =
     and_then (index_select world_pos senders) (\<lambda>world_s.
     and_then (index_select world_pos receivers) (\<lambda>world_r.
     and_then (tensor_op (-) world_s world_r) (\<lambda>all_relative_world_pos.
     and_then (cat_last [relative_mesh_pos, norm_keepdim relative_mesh_pos,
                         all_relative_world_pos, norm_keepdim all_relative_world_pos])
       (\<lambda>mesh_edge_features.
     Inr (all_relative_world_pos, mesh_edge_features)))))"

text \<open>Lines 162 to 166: the argument of the node normalizer.\<close>

definition deform_kinematic_displacement ::
  "common \<Rightarrow> tensor \<Rightarrow> tensor \<Rightarrow> tensor \<Rightarrow> error + tensor" where
  "deform_kinematic_displacement common node_type target_world_pos world_pos =
     and_then (column0 node_type) (\<lambda>types.
     and_then (stack_dim1 (eq_mask types (NodeType_OBSTACLE common)) 3) (\<lambda>obstacle_mask.
     and_then (tensor_where obstacle_mask target_world_pos (Vec [0]))
       (\<lambda>masked_target_world_pos.
     and_then (tensor_where obstacle_mask world_pos (Vec [0])) (\<lambda>masked_world_pos.
     tensor_op (-) masked_target_world_pos masked_world_pos))))"

text \<open>Lines 167 to 171.\<close>

definition deform_node_features ::
  "common \<Rightarrow> tensor \<Rightarrow> tensor \<Rightarrow> tensor \<Rightarrow> tensor \<Rightarrow> error + tensor" where
  "deform_node_features common node_type world_pos one_hot_node_type
     kinematic_nodes_features =
     and_then (cat_last [zeros_like world_pos, one_hot_node_type]) (\<lambda>normal_node_features.
     and_then (cat_last [kinematic_nodes_features, one_hot_node_type])
       (\<lambda>kinematic_node_features.
     and_then (column0 node_type) (\<lambda>types.
     and_then (stack_dim1 (eq_mask types (NodeType_OBSTACLE common)) 12) (\<lambda>obstacle_mask.
     tensor_where obstacle_mask kinematic_node_features normal_node_features))))"

text \<open>Lines 174 to 179: the argument of the node-dynamic normalizer.\<close>

definition deform_node_dynamic :: "tensor \<Rightarrow> tensor \<Rightarrow> nat list \<Rightarrow> error + tensor" where
  "deform_node_dynamic node_type all_relative_world_pos receivers =
     (let num_nodes = int (tensor_size node_type ! 0)
      in and_then (unsorted_segment_operation (norm_last all_relative_world_pos)
                     (IVec (map int receivers)) num_nodes ''max'') (\<lambda>max_node_dynamic.
         and_then (unsorted_segment_operation (norm_last all_relative_world_pos)
                     (IVec (map int receivers)) num_nodes ''min'') (\<lambda>min_node_dynamic.
         tensor_op (-) max_node_dynamic min_node_dynamic)))"

text \<open>
  \<open>_build_graph\<close>, lines 103 to 187. Lines 144 and 158 call a normalizer with
  \<open>(features, None, is_training)\<close>, lines 166 and 180 with the batch alone.
\<close>

definition deform_build_graph ::
  "common \<Rightarrow> deform_core deform_model \<Rightarrow> (string \<rightharpoonup> tensor) \<Rightarrow> bool \<Rightarrow>
     deform_core deform_model \<times> (error + graph)" where
  "deform_build_graph common self inputs is_training =
     then_with (self, deform_world_features common inputs)
       (\<lambda>self (world_pos, target_world_pos, node_type, one_hot_node_type, senders, receivers,
               mesh_pos, relative_mesh_pos, world_senders, world_receivers,
               world_edge_features).
     then_with (apply_normalizer world_edge_normalizer world_edge_normalizer_update self
                  world_edge_features [PyNone, PyBool is_training]) (\<lambda>self features.
     let world_edges = EdgeSet ''world_edges'' features world_receivers world_senders in
     then_with (self, deform_mesh_edge_features world_pos senders receivers relative_mesh_pos)
       (\<lambda>self (all_relative_world_pos, mesh_edge_features).
     then_with (apply_normalizer mesh_edge_normalizer mesh_edge_normalizer_update self
                  mesh_edge_features [PyNone, PyBool is_training]) (\<lambda>self features.
     let mesh_edges = EdgeSet ''mesh_edges'' features receivers senders in
     then_with (self, deform_kinematic_displacement common node_type target_world_pos
                        world_pos) (\<lambda>self displacement.
     then_with (apply_normalizer node_normalizer node_normalizer_update self displacement [])
       (\<lambda>self kinematic_nodes_features.
     then_with (self, deform_node_features common node_type world_pos one_hot_node_type
                        kinematic_nodes_features) (\<lambda>self node_features.
     if truthy (ripple_used self)
     then then_with (self, deform_node_dynamic node_type all_relative_world_pos receivers)
            (\<lambda>self dynamic.
          then_with (apply_normalizer node_dynamic_normalizer node_dynamic_normalizer_update
                       self dynamic []) (\<lambda>self node_dynamic.
          (self, Inr (MultiGraphWithPos node_features [mesh_edges, world_edges] world_pos
                        mesh_pos (model_type self) node_dynamic))))
     else (self, Inr (MultiGraph node_features [mesh_edges, world_edges])))))))))"

text \<open>\<open>_update\<close>, lines 196 to 204.\<close>

definition deform_update ::
  "'lm deform_model \<Rightarrow> (string \<rightharpoonup> tensor) \<Rightarrow> tensor \<Rightarrow> error + (tensor \<times> tensor \<times> tensor)" where
  "deform_update self inputs per_node_network_output =
     and_then (Normalizer_inverse (output_normalizer self) per_node_network_output)
       (\<lambda>velocity.
     and_then (getitem inputs ''world_pos'') (\<lambda>cur_position.
     and_then (tensor_op (+) cur_position velocity) (\<lambda>position.
     Inr (position, cur_position, velocity))))"

text \<open>\<open>forward\<close>, lines 189 to 194: the raw output in training, the integrated triple
  otherwise.\<close>

datatype deform_output = RawOutput tensor | Integrated "tensor \<times> tensor \<times> tensor"

definition deform_forward ::
  "common \<Rightarrow> deform_core deform_model \<Rightarrow> (string \<rightharpoonup> tensor) \<Rightarrow> bool \<Rightarrow>
     deform_core deform_model \<times> (error + deform_output)" where
  "deform_forward common self inputs is_training =
     then_with (deform_build_graph common self inputs is_training) (\<lambda>self graph.
       (let output = learned_model self graph (mesh_edge_normalizer self)
                       (world_edge_normalizer self) is_training
        in if is_training then (self, map_sum id RawOutput output)
           else (self, and_then output (\<lambda>per_node_network_output.
                         map_sum id Integrated
                           (deform_update self inputs per_node_network_output)))))"

section \<open>Example objects\<close>

text \<open>A cloth model and a deforming-plate model as their constructors leave them,
  around a given learned core.\<close>

definition cloth_example :: "'lm \<Rightarrow> 'lm cloth_model" where
  "cloth_example core =
     \<lparr> params = [''size'' \<mapsto> PyInt 3],
       output_normalizer = Normalizer_default 3,
       node_normalizer = Normalizer_default 12,
       core_model_name = PyStr ''encode_process_decode'',
       core_model = encode_process_decode,
       message_passing_steps = PyInt 15,
       message_passing_aggregator = PyStr ''sum'',
       learned_model = core,
       edge_normalizer = Normalizer_default 7 \<rparr>"

definition deform_example :: "'lm \<Rightarrow> 'lm deform_model" where
  "deform_example core =
     \<lparr> params = [''size'' \<mapsto> PyInt 3, ''model'' \<mapsto> PyObject ''deform_model''],
       output_normalizer = Normalizer_default 3,
       node_normalizer = Normalizer_default 3,
       core_model_name = PyModule encode_process_decode,
       core_model = encode_process_decode,
       message_passing_steps = PyInt 15,
       message_passing_aggregator = PyStr ''sum'',
       learned_model = core,
       node_dynamic_normalizer = Normalizer_default 1,
       mesh_edge_normalizer = Normalizer_default 8,
       world_edge_normalizer = Normalizer_default 4,
       model_type = ''deform_model'',
       displacement_base = PyNone,
       attention = PyBool False,
       ripple_used = PyBool False,
       ripple_generation = None,
       ripple_generation_number = None,
       ripple_node_selection = None,
       ripple_node_selection_random_top_n = None,
       ripple_node_connection = None,
       ripple_node_ncross = None \<rparr>"

text \<open>Values for what \<open>common\<close> supplies: an enumeration of nine node types with
  \<open>OBSTACLE\<close> as 1 and \<open>HANDLE\<close> as 3, and a mesh of the one edge between the nodes 0
  and 1, in both directions.\<close>

definition common_example :: common where
  "common_example =
     \<lparr> NodeType_SIZE = 9, NodeType_OBSTACLE = 1, NodeType_HANDLE = 3,
       triangles_to_edges = (\<lambda>cells. Inr ([0, 1], [1, 0])),
       triangles_to_edges_deform = (\<lambda>cells. Inr ([0, 1], [1, 0])) \<rparr>"

text \<open>
  Four nodes of a plate: the nodes 0 and 1 are joined by the mesh edge, the node 2 is
  an obstacle, all three lie within a few thousandths of each other, and the node 3
  is far from them.
\<close>

definition plate_inputs :: "string \<rightharpoonup> tensor" where
  "plate_inputs =
     [''world_pos'' \<mapsto> Mat [[0, 0, 0], [1 / 1000, 0, 0], [2 / 1000, 0, 0], [1, 0, 0]],
      ''target|world_pos'' \<mapsto> Mat [[0, 0, 0], [1 / 1000, 0, 0], [2 / 1000, 0, 0], [1, 0, 0]],
      ''node_type'' \<mapsto> Mat [[0], [0], [1], [0]],
      ''cells'' \<mapsto> Mat [[0, 1, 2]],
      ''mesh_pos'' \<mapsto> Mat [[0, 0, 0], [1, 0, 0], [2, 0, 0], [3, 0, 0]]]"

section \<open>Broadcasting on tensors of matching shape\<close>

lemma sequence_map_Inr: "sequence (map (\<lambda>x. Inr (g x)) xs) = Inr (map g xs)"
  by (induction xs) simp_all

lemma sequence_all_Inr:
  assumes "\<forall>x \<in> set xs. f x = Inr (g x)"
  shows "sequence (map f xs) = Inr (map g xs)"
proof -
  have "map f xs = map (\<lambda>x. Inr (g x)) xs" using assms by simp
  then show ?thesis by (simp only: sequence_map_Inr)
qed

lemma sequence_map2:
  assumes "length A = length B" and "\<forall>(r, s) \<in> set (zip A B). h r s = Inr (g r s)"
  shows "sequence (map2 h A B) = Inr (map2 g A B)"
  using assms by (induction A B rule: list_induct2) auto

lemma broadcast_same: "length xs = length ys \<Longrightarrow> broadcast h xs ys = Inr (map2 h xs ys)"
  by (simp add: broadcast_def)

lemma tensor_op_Mat_Mat:
  assumes "length A = length B" and "\<forall>(r, s) \<in> set (zip A B). length r = length s"
  shows "tensor_op f (Mat A) (Mat B) = Inr (Mat (map2 (map2 f) A B))"
proof -
  have outer: "broadcast (broadcast f) A B = Inr (map2 (broadcast f) A B)"
    using assms(1) by (rule broadcast_same)
  have inner: "sequence (map2 (broadcast f) A B) = Inr (map2 (map2 f) A B)"
    using assms by (intro sequence_map2) (auto simp: broadcast_def)
  show ?thesis by (simp add: outer inner)
qed

lemma tensor_op_same_shape:
  assumes len: "length B = length A" and rows: "\<forall>i<length A. length (B ! i) = length (A ! i)"
  shows "\<exists>C. tensor_op f (Mat A) (Mat B) = Inr (Mat C) \<and> length C = length A \<and>
           (\<forall>i<length A. length (C ! i) = length (A ! i) \<and>
              (\<forall>j<length (A ! i). C ! i ! j = f (A ! i ! j) (B ! i ! j)))"
proof -
  have "\<forall>(r, s) \<in> set (zip A B). length r = length s"
    using len rows by (auto simp: set_zip)
  with len have "tensor_op f (Mat A) (Mat B) = Inr (Mat (map2 (map2 f) A B))"
    by (intro tensor_op_Mat_Mat) simp_all
  moreover have "length (map2 (map2 f) A B) = length A" using len by simp
  moreover have "\<forall>i<length A. length (map2 (map2 f) A B ! i) = length (A ! i) \<and>
              (\<forall>j<length (A ! i). map2 (map2 f) A B ! i ! j = f (A ! i ! j) (B ! i ! j))"
    using len rows by simp
  ultimately show ?thesis by blast
qed

section \<open>The normalizer\<close>

lemma Normalizer_mean_raises: "Normalizer_mean self = Inl TypeError"
  by (simp add: Normalizer_mean_def and_then_def)

lemma Normalizer_std_with_epsilon_raises: "Normalizer_std_with_epsilon self = Inl TypeError"
  by (simp add: Normalizer_std_with_epsilon_def and_then_def)

lemma Normalizer_inverse_raises: "Normalizer_inverse self y = Inl TypeError"
  by (simp add: Normalizer_inverse_def Normalizer_std_with_epsilon_raises and_then_def)

lemma Normalizer_accumulate_raises: "Normalizer_accumulate self x = Inl AttributeError"
  by (simp add: Normalizer_accumulate_def Size_tolist_def and_then_def)

lemma Normalizer_call_raises:
  "Normalizer_call self x accumulate =
     (self, Inl (if accumulate \<and> num_accumulations self < of_int (max_accumulations self)
                 then AttributeError else TypeError))"
  by (simp add: Normalizer_call_def Normalizer_accumulate_raises Normalizer_mean_raises
      and_then_def)

lemma Normalizer_call_fst: "fst (Normalizer_call self x accumulate) = self"
  by (simp add: Normalizer_call_raises)

lemma Normalizer_apply_fst: "fst (Normalizer_apply self x rest) = self"
  by (simp add: Normalizer_apply_def Normalizer_call_fst split: list.splits)

text \<open>
  C1. The round trip of \<open>__call__\<close> with \<open>accumulate=False\<close> and \<open>inverse\<close> is to
  return the batch. At a normalizer of size 3 as the constructor leaves it and the
  batch of the rows \<open>[1, 2, 3]\<close> and \<open>[4, 5, 6]\<close>, the call leaves the normalizer as
  it is and raises \<open>TypeError\<close>, from \<open>torch.maximum\<close> with the float \<open>1.\<close> at line 67,
  and \<open>inverse\<close> raises it as well, at line 71: neither returns a batch.
\<close>

theorem round_trip_raises:
  "Normalizer_call (Normalizer_default 3) (Mat [[1, 2, 3], [4, 5, 6]]) False
     = (Normalizer_default 3, Inl TypeError) \<and>
   Normalizer_inverse (Normalizer_default 3) (Mat [[1, 2, 3], [4, 5, 6]]) = Inl TypeError"
  by (simp add: Normalizer_call_raises Normalizer_inverse_raises)

text \<open>
  C2. Every accumulating call is to add the number of rows of its batch to the
  running count. At a normalizer of size one as the constructor leaves it and the
  batch of the three rows 1, 3 and 5, the call raises \<open>AttributeError\<close>, from
  \<open>tolist\<close> at line 52, and the count after it is the count before it, zero.
\<close>

theorem accumulate_three_rows:
  "Normalizer_call (Normalizer_default 1) (Mat [[1], [3], [5]]) True
     = (Normalizer_default 1, Inl AttributeError) \<and>
   acc_count (fst (Normalizer_call (Normalizer_default 1) (Mat [[1], [3], [5]]) True)) = 0"
  by (simp add: Normalizer_call_raises) (simp add: Normalizer_default_def Normalizer_init_def)

text \<open>
  C3. Once the counter of accumulations has reached \<open>max_accumulations\<close>, a call with
  \<open>accumulate=True\<close> is to leave the statistics as they are and to raise no error. At a
  normalizer built with \<open>max_accumulations=0\<close>, whose counter has reached the cap from
  the start, the call skips \<open>_accumulate\<close> and leaves the normalizer as it is, but it
  raises \<open>TypeError\<close>, from \<open>torch.maximum\<close> at line 67.
\<close>

theorem capped_call_raises:
  "Normalizer_call (Normalizer_init 2 0 (1 / 10 ^ 8)) (Mat [[1, 2], [3, 4]]) True
     = (Normalizer_init 2 0 (1 / 10 ^ 8), Inl TypeError)"
  by (simp add: Normalizer_call_raises) (simp add: Normalizer_init_def)

section \<open>The integrators\<close>

lemma cloth_update_always_raises: "cloth_update self inputs output = Inl TypeError"
  by (simp add: cloth_update_def Normalizer_inverse_raises and_then_def)

lemma deform_update_always_raises: "deform_update self inputs output = Inl TypeError"
  by (simp add: deform_update_def Normalizer_inverse_raises and_then_def)

text \<open>
  C4. The cloth \<open>_update\<close> is to return \<open>2 * world_pos + acceleration - prev|world_pos\<close>,
  with the acceleration that the output normalizer's \<open>inverse\<close> makes of the network
  output. In the scenario with the positions \<open>[[0,0,0],[1,0,0]]\<close>, the previous
  positions \<open>[[0,0,0],[0.9,0,0]]\<close> and a zero network output, where \<open>[[0,0,0],[1.1,0,0]]\<close>
  is expected, \<open>_update\<close> raises \<open>TypeError\<close> at its first statement, line 120, from
  \<open>inverse\<close>.
\<close>

theorem cloth_update_raises:
  "cloth_update (cloth_example core)
     [''world_pos'' \<mapsto> Mat [[0, 0, 0], [1, 0, 0]],
      ''prev|world_pos'' \<mapsto> Mat [[0, 0, 0], [9 / 10, 0, 0]]]
     (Mat [[0, 0, 0], [0, 0, 0]])
   = Inl TypeError"
  by (rule cloth_update_always_raises)

text \<open>
  C5. The deforming-plate \<open>_update\<close> is to return the triple of \<open>world_pos + velocity\<close>,
  \<open>world_pos\<close> and the velocity, with the velocity that the output normalizer's
  \<open>inverse\<close> makes of the network output. In the scenario with the position
  \<open>[[2,0,0]]\<close>, where the next position \<open>[[2.1,0,0]]\<close> is expected for the velocity
  \<open>[[0.1,0,0]]\<close>, \<open>_update\<close> raises \<open>TypeError\<close> at its first statement, line 198, from
  \<open>inverse\<close>, whatever the network output.
\<close>

theorem deform_update_raises:
  "deform_update (deform_example core) [''world_pos'' \<mapsto> Mat [[2, 0, 0]]] output
     = Inl TypeError"
  by (rule deform_update_always_raises)

section \<open>The forward passes and the normalizers\<close>

lemma then_with_fst:
  assumes "fst m = s0" and "\<And>v. fst (f s0 v) = s0"
  shows "fst (then_with m f) = s0"
  using assms by (cases m) (auto simp: then_with_def split: sum.splits)

lemma if_fst: "fst a = s \<Longrightarrow> fst b = s \<Longrightarrow> fst (if c then a else b) = s"
  by simp

lemma apply_edge_normalizer:
  "fst (apply_normalizer edge_normalizer edge_normalizer_update self x rest) = self"
  using Normalizer_apply_fst [of "edge_normalizer self" x rest]
  by (cases "Normalizer_apply (edge_normalizer self) x rest") (simp add: apply_normalizer_def)

lemma apply_node_normalizer:
  "fst (apply_normalizer node_normalizer node_normalizer_update self x rest) = self"
  using Normalizer_apply_fst [of "node_normalizer self" x rest]
  by (cases "Normalizer_apply (node_normalizer self) x rest") (simp add: apply_normalizer_def)

lemma apply_world_edge_normalizer:
  "fst (apply_normalizer world_edge_normalizer world_edge_normalizer_update self x rest) = self"
  using Normalizer_apply_fst [of "world_edge_normalizer self" x rest]
  by (cases "Normalizer_apply (world_edge_normalizer self) x rest")
    (simp add: apply_normalizer_def)

lemma apply_mesh_edge_normalizer:
  "fst (apply_normalizer mesh_edge_normalizer mesh_edge_normalizer_update self x rest) = self"
  using Normalizer_apply_fst [of "mesh_edge_normalizer self" x rest]
  by (cases "Normalizer_apply (mesh_edge_normalizer self) x rest")
    (simp add: apply_normalizer_def)

lemma apply_node_dynamic_normalizer:
  "fst (apply_normalizer node_dynamic_normalizer node_dynamic_normalizer_update self x rest)
     = self"
  using Normalizer_apply_fst [of "node_dynamic_normalizer self" x rest]
  by (cases "Normalizer_apply (node_dynamic_normalizer self) x rest")
    (simp add: apply_normalizer_def)

lemma cloth_build_graph_fst: "fst (cloth_build_graph common self inputs is_training) = self"
  unfolding cloth_build_graph_def Let_def split_def
  by (intro then_with_fst if_fst apply_edge_normalizer apply_node_normalizer) simp_all

lemma cloth_forward_fst: "fst (cloth_forward common self inputs is_training) = self"
  unfolding cloth_forward_def
  by (intro then_with_fst if_fst cloth_build_graph_fst) simp_all

lemma deform_build_graph_fst: "fst (deform_build_graph common self inputs is_training) = self"
  unfolding deform_build_graph_def Let_def split_def
  by (intro then_with_fst if_fst apply_world_edge_normalizer apply_mesh_edge_normalizer
      apply_node_normalizer apply_node_dynamic_normalizer) simp_all

lemma deform_forward_fst: "fst (deform_forward common self inputs is_training) = self"
  unfolding deform_forward_def Let_def
  by (intro then_with_fst if_fst deform_build_graph_fst) simp_all

text \<open>
  C7. A forward pass in evaluation mode (\<open>is_training\<close> false) leaves the model, and
  with it every normalizer it holds, as it was: in the cloth model, and in the
  deforming-plate model. The cloth model passes \<open>is_training\<close> as \<open>accumulate\<close>; the
  deforming-plate model calls its node normalizers with \<open>accumulate\<close> left at its
  default, and no call of a normalizer stores a sum.
\<close>

theorem evaluation_leaves_normalizers:
  "fst (cloth_forward common cloth cloth_inputs False) = cloth \<and>
   fst (deform_forward common deform deform_inputs False) = deform"
  by (simp add: cloth_forward_fst deform_forward_fst)

section \<open>The world edges\<close>

lemma nonzero_set:
  "set (zip (fst (nonzero M)) (snd (nonzero M)))
     = {(i, j). i < length M \<and> j < length (M ! i) \<and> M ! i ! j \<noteq> 0}"
  by (auto simp: nonzero_def Let_def zip_map_fst_snd)

lemma nonzero_lengths: "length (fst (nonzero M)) = length (snd (nonzero M))"
  by (simp add: nonzero_def Let_def)

lemma broadcast_singleton_right:
  "0 < length xs \<Longrightarrow> broadcast f xs [c] = Inr (map (\<lambda>x. f x c) xs)"
  by (cases xs) (auto simp: broadcast_def)

lemma tensor_op_rows_scalar:
  assumes "\<forall>r \<in> set A. 0 < length r"
  shows "tensor_op f (Mat A) (Vec [c]) = Inr (Mat (map (map (\<lambda>x. f x c)) A))"
proof -
  have "sequence (map (\<lambda>r. broadcast f r [c]) A) = Inr (map (map (\<lambda>x. f x c)) A)"
    using assms by (intro sequence_all_Inr) (simp add: broadcast_singleton_right)
  then show ?thesis by simp
qed

lemma tensor_where_zero:
  assumes n: "0 < n" and lm: "length m = n" and lc: "length C = n"
    and rows: "\<forall>i<n. length (C ! i) = n"
  shows "\<exists>D. tensor_where (Mat (replicate n m)) (Vec [0]) (Mat C) = Inr (Mat D) \<and> length D = n \<and>
           (\<forall>i<n. length (D ! i) = n \<and> (\<forall>j<n. D ! i ! j = (1 - m ! j) * C ! i ! j))"
proof -
  let ?M = "replicate n m"
  have a: "tensor_op (\<lambda>m x. m * x) (Mat ?M) (Vec [0]) = Inr (Mat (map (map (\<lambda>x. x * 0)) ?M))"
    using n lm by (intro tensor_op_rows_scalar) simp
  define A where "A = map (map (\<lambda>x. x * 0)) ?M"
  have a': "tensor_op (\<lambda>m x. m * x) (Mat ?M) (Vec [0]) = Inr (Mat A)"
    using a by (simp only: A_def)
  have A: "length A = n" "\<forall>i<n. length (A ! i) = n" "\<forall>i<n. \<forall>j<n. A ! i ! j = 0"
    using lm by (simp_all add: A_def)
  obtain B where b: "tensor_op (\<lambda>m y. (1 - m) * y) (Mat ?M) (Mat C) = Inr (Mat B)"
    and lB: "length B = length ?M"
    and eB: "\<forall>i<length ?M. length (B ! i) = length (?M ! i) \<and>
               (\<forall>j<length (?M ! i). B ! i ! j = (1 - ?M ! i ! j) * C ! i ! j)"
    using tensor_op_same_shape [of C ?M "\<lambda>m y. (1 - m) * y"] lc rows lm by auto
  have B: "length B = n" "\<forall>i<n. length (B ! i) = n"
    "\<forall>i<n. \<forall>j<n. B ! i ! j = (1 - m ! j) * C ! i ! j"
    using lB eB lm by simp_all
  obtain D where d: "tensor_op (+) (Mat A) (Mat B) = Inr (Mat D)"
    and lD: "length D = length A"
    and eD: "\<forall>i<length A. length (D ! i) = length (A ! i) \<and>
               (\<forall>j<length (A ! i). D ! i ! j = A ! i ! j + B ! i ! j)"
    using tensor_op_same_shape [of B A "(+)"] A B by auto
  have "tensor_where (Mat ?M) (Vec [0]) (Mat C) = Inr (Mat D)"
    by (simp only: tensor_where_def and_then_def a' b d sum.case)
  moreover have "length D = n" using lD A by simp
  moreover have "\<forall>i<n. length (D ! i) = n \<and> (\<forall>j<n. D ! i ! j = (1 - m ! j) * C ! i ! j)"
    using eD A B by simp
  ultimately show ?thesis by blast
qed

lemma connection_matrix:
  fixes P :: "real list list"
  defines "M \<equiv> fill_diagonal_zero (map (map (\<lambda>d. if d < radius then 1 else 0)) (cdist P))"
  shows "length M = length P"
    and "\<forall>i<length P. length (M ! i) = length P \<and>
           (\<forall>j<length P. M ! i ! j =
              (if i = j then 0
               else if row_norm (map2 (-) (P ! i) (P ! j)) < radius then 1 else 0))"
  by (auto simp: M_def fill_diagonal_zero_def cdist_def nth_list_update)

lemma index_put_zero_ok:
  assumes "\<forall>(s, r) \<in> set pairs. s < length M \<and> r < length (M ! s)"
  shows "\<exists>M'. index_put_zero M pairs = Inr M' \<and> length M' = length M \<and>
           (\<forall>i<length M. length (M' ! i) = length (M ! i) \<and>
              (\<forall>j<length (M ! i). M' ! i ! j = (if (i, j) \<in> set pairs then 0 else M ! i ! j)))"
proof -
  have "\<not> (\<exists>(s, r) \<in> set pairs. length M \<le> s \<or> length (M ! s) \<le> r)"
    using assms by (auto simp: not_le)
  then show ?thesis by (simp add: index_put_zero_def)
qed

lemma row_norm_less: "0 < c \<Longrightarrow> row_norm v < c \<longleftrightarrow> sum_list (map (\<lambda>x. x ^ 2) v) < c ^ 2"
proof -
  assume "0 < c"
  then have "c = sqrt (c ^ 2)" by simp
  then show ?thesis by (metis real_sqrt_less_iff row_norm_def)
qed

text \<open>
  What lines 121 to 134 compute, for at least one node, a node type for every node, and
  mesh senders and receivers that pair up and are node indices: \<open>s\<close> and \<open>r\<close> are
  paired among \<open>world_senders\<close> and \<open>world_receivers\<close> exactly when they are nodes less
  than the radius apart, \<open>s\<close> is not \<open>r\<close>, \<open>(s, r)\<close> is not a mesh edge, and the type of
  \<open>r\<close> is neither \<open>OBSTACLE\<close> nor \<open>HANDLE\<close>.
\<close>

lemma world_edge_indices_iff:
  assumes nodes: "0 < length P"
    and types: "length T = length P" "[] \<notin> set T"
    and mesh: "length senders = length receivers" "\<forall>s \<in> set senders. s < length P"
      "\<forall>r \<in> set receivers. r < length P"
  shows "\<exists>ws wr. world_edge_indices common (Mat P) senders receivers (Mat T) = Inr (ws, wr) \<and>
           length ws = length wr \<and>
           (\<forall>s r. (s, r) \<in> set (zip ws wr) \<longleftrightarrow>
              s < length P \<and> r < length P \<and>
              row_norm (map2 (-) (P ! s) (P ! r)) < radius \<and>
              s \<noteq> r \<and>
              (s, r) \<notin> set (zip senders receivers) \<and>
              hd (T ! r) \<noteq> of_int (NodeType_OBSTACLE common) \<and>
              hd (T ! r) \<noteq> of_int (NodeType_HANDLE common))"
proof -
  define n where "n = length P"
  define M0 where
    "M0 = fill_diagonal_zero (map (map (\<lambda>d. if d < radius then 1 else 0)) (cdist P))"
  have M0: "length M0 = n"
    "\<forall>i<n. length (M0 ! i) = n \<and>
       (\<forall>j<n. M0 ! i ! j =
          (if i = j then 0 else if row_norm (map2 (-) (P ! i) (P ! j)) < radius then 1 else 0))"
    unfolding M0_def n_def by (rule connection_matrix)+
  define pairs where "pairs = zip senders receivers"
  have bp: "broadcast Pair senders receivers = Inr pairs"
    using mesh(1) by (simp add: broadcast_same pairs_def)
  have "\<forall>(s, r) \<in> set pairs. s < length M0 \<and> r < length (M0 ! s)"
  proof (clarify)
    fix s r assume "(s, r) \<in> set pairs"
    then have "s < n" "r < n"
      using mesh unfolding pairs_def n_def by (auto dest: set_zip_leftD set_zip_rightD)
    then show "s < length M0 \<and> r < length (M0 ! s)" using M0 by simp
  qed
  then obtain M1 where ip: "index_put_zero M0 pairs = Inr M1"
    and lM1: "length M1 = length M0"
    and eM1: "\<forall>i<length M0. length (M1 ! i) = length (M0 ! i) \<and>
              (\<forall>j<length (M0 ! i). M1 ! i ! j = (if (i, j) \<in> set pairs then 0 else M0 ! i ! j))"
    using index_put_zero_ok [of pairs M0] by blast
  have M1: "length M1 = n" "\<forall>i<n. length (M1 ! i) = n"
    using lM1 eM1 M0 by simp_all
  have c0: "column0 (Mat T) = Inr (map hd T)" using types(2) by simp
  define m where "m = map (\<lambda>t. if t = of_int (NodeType_OBSTACLE common) \<or>
                                 t = of_int (NodeType_HANDLE common) then 1 else (0::real))
                        (map hd T)"
  have lm: "length m = n" using types(1) by (simp add: m_def n_def)
  have st: "stack_dim1_transposed m n = Inr (Mat (replicate n m))"
    using nodes by (simp add: stack_dim1_transposed_def n_def)
  obtain D where tw: "tensor_where (Mat (replicate n m)) (Vec [0]) (Mat M1) = Inr (Mat D)"
    and lD: "length D = n"
    and eD: "\<forall>i<n. length (D ! i) = n \<and> (\<forall>j<n. D ! i ! j = (1 - m ! j) * M1 ! i ! j)"
    using tensor_where_zero [of n m M1] nodes lm M1 unfolding n_def by blast
  have result: "world_edge_indices common (Mat P) senders receivers (Mat T) = Inr (nonzero D)"
    unfolding world_edge_indices_def Let_def
    by (simp only: tensor.case M0_def [symmetric] bp and_then_def sum.case ip c0
        m_def [symmetric] n_def [symmetric] st tw)
  have entry: "D ! s ! r \<noteq> 0 \<longleftrightarrow>
      row_norm (map2 (-) (P ! s) (P ! r)) < radius \<and> s \<noteq> r \<and> (s, r) \<notin> set pairs \<and>
      hd (T ! r) \<noteq> of_int (NodeType_OBSTACLE common) \<and>
      hd (T ! r) \<noteq> of_int (NodeType_HANDLE common)"
    if "s < n" "r < n" for s r
  proof -
    have "m ! r = (if hd (T ! r) = of_int (NodeType_OBSTACLE common) \<or>
                      hd (T ! r) = of_int (NodeType_HANDLE common) then 1 else 0)"
      using that types(1) by (simp add: m_def n_def)
    moreover have "D ! s ! r = (1 - m ! r) * M1 ! s ! r" using eD that by simp
    moreover have "M1 ! s ! r = (if (s, r) \<in> set pairs then 0 else M0 ! s ! r)"
      using eM1 M0 that by simp
    moreover have "M0 ! s ! r =
        (if s = r then 0 else if row_norm (map2 (-) (P ! s) (P ! r)) < radius then 1 else 0)"
      using M0 that by simp
    ultimately show ?thesis by auto
  qed
  have "set (zip (fst (nonzero D)) (snd (nonzero D)))
          = {(i, j). i < n \<and> j < n \<and> D ! i ! j \<noteq> 0}"
    using lD eD by (auto simp: nonzero_set)
  then have "(s, r) \<in> set (zip (fst (nonzero D)) (snd (nonzero D))) \<longleftrightarrow>
              s < length P \<and> r < length P \<and>
              row_norm (map2 (-) (P ! s) (P ! r)) < radius \<and>
              s \<noteq> r \<and>
              (s, r) \<notin> set (zip senders receivers) \<and>
              hd (T ! r) \<noteq> of_int (NodeType_OBSTACLE common) \<and>
              hd (T ! r) \<noteq> of_int (NodeType_HANDLE common)" for s r
    using entry [of s r] unfolding n_def pairs_def by auto
  moreover have "world_edge_indices common (Mat P) senders receivers (Mat T)
                   = Inr (fst (nonzero D), snd (nonzero D))"
    using result by simp
  ultimately show ?thesis using nonzero_lengths [of D] by blast
qed

lemma index_select_rows:
  assumes "\<forall>i \<in> set index. i < length A"
  shows "index_select (Mat A) index = Inr (Mat (map (\<lambda>i. A ! i) index))"
  using assms by (auto simp: not_le)

lemma difference_of_selected_rows:
  assumes "length a = length b" and "\<forall>i \<in> set a. i < length A" and "\<forall>i \<in> set b. i < length A"
    and "\<forall>r \<in> set A. length r = w"
  shows "\<exists>X Y R. index_select (Mat A) a = Inr (Mat X) \<and> index_select (Mat A) b = Inr (Mat Y) \<and>
           tensor_op (-) (Mat X) (Mat Y) = Inr (Mat R)"
proof -
  define X where "X = map (\<lambda>i. A ! i) a"
  define Y where "Y = map (\<lambda>i. A ! i) b"
  have x: "index_select (Mat A) a = Inr (Mat X)"
    unfolding X_def using assms(2) by (rule index_select_rows)
  have y: "index_select (Mat A) b = Inr (Mat Y)"
    unfolding Y_def using assms(3) by (rule index_select_rows)
  have "\<forall>(r, s) \<in> set (zip X Y). length r = length s"
    using assms unfolding X_def Y_def by (auto simp: set_zip)
  then have d: "tensor_op (-) (Mat X) (Mat Y) = Inr (Mat (map2 (map2 (-)) X Y))"
    using assms(1) by (intro tensor_op_Mat_Mat) (simp_all add: X_def Y_def)
  from x y d show ?thesis by blast
qed

lemma cat_with_norm: "\<exists>F. cat_last [Mat R, norm_keepdim (Mat R)] = Inr (Mat F)"
  by (simp add: and_then_def)

lemma one_hot_returns:
  assumes "\<forall>c \<in> set classes. 0 \<le> c \<and> c < int n"
  shows "\<exists>h. one_hot classes n = Inr h"
proof -
  have "\<not> (\<exists>c \<in> set classes. c < 0 \<or> int n \<le> c)" using assms by (auto simp: not_le not_less)
  then show ?thesis by (simp add: one_hot_def)
qed

text \<open>
  C6. The graph builder of the deforming plate is to hold, in its world edge set, the
  edge from \<open>s\<close> to \<open>r\<close> exactly when the two nodes are less than the radius 0.006
  apart, \<open>s\<close> is not \<open>r\<close>, \<open>(s, r)\<close> is not a mesh edge, and \<open>r\<close> is neither an
  obstacle nor a handle. On inputs of one node at least, with three coordinates for
  every position, a node type of the enumeration for every node and mesh edges between
  nodes, \<open>_build_graph\<close> computes world senders and receivers that pair up in just that
  way, and then raises \<open>TypeError\<close>: the call at line 144 that is to normalize the
  features of the world edge set passes three positional arguments to a \<open>__call__\<close>
  that takes two. No edge set is built.
\<close>

theorem world_edge_set_never_built:
  assumes world: "inputs ''world_pos'' = Some (Mat P)"
    and target: "inputs ''target|world_pos'' = Some target_world_pos"
    and node_type: "inputs ''node_type'' = Some (Mat T)"
    and cells: "inputs ''cells'' = Some cells"
    and mesh_pos: "inputs ''mesh_pos'' = Some (Mat M)"
    and edges: "triangles_to_edges_deform common cells = Inr (senders, receivers)"
    and nodes: "0 < length P" "length T = length P" "length M = length P"
      "\<forall>r \<in> set P. length r = 3" "\<forall>r \<in> set M. length r = 3"
    and types: "\<forall>t \<in> set T. t \<noteq> [] \<and> 0 \<le> to_int64 (hd t) \<and>
                  to_int64 (hd t) < int (NodeType_SIZE common)"
    and mesh: "length senders = length receivers" "\<forall>s \<in> set senders. s < length P"
      "\<forall>r \<in> set receivers. r < length P"
  shows "\<exists>ws wr. world_edge_indices common (Mat P) senders receivers (Mat T) = Inr (ws, wr) \<and>
           (\<forall>s r. (s, r) \<in> set (zip ws wr) \<longleftrightarrow>
              s < length P \<and> r < length P \<and>
              row_norm (map2 (-) (P ! s) (P ! r)) < radius \<and>
              s \<noteq> r \<and>
              (s, r) \<notin> set (zip senders receivers) \<and>
              hd (T ! r) \<noteq> of_int (NodeType_OBSTACLE common) \<and>
              hd (T ! r) \<noteq> of_int (NodeType_HANDLE common)) \<and>
           deform_build_graph common self inputs is_training = (self, Inl TypeError)"
proof -
  have empty: "[] \<notin> set T" using types by auto
  obtain ws wr where w: "world_edge_indices common (Mat P) senders receivers (Mat T)
       = Inr (ws, wr)"
    and l: "length ws = length wr"
    and e: "\<forall>s r. (s, r) \<in> set (zip ws wr) \<longleftrightarrow>
              s < length P \<and> r < length P \<and>
              row_norm (map2 (-) (P ! s) (P ! r)) < radius \<and>
              s \<noteq> r \<and>
              (s, r) \<notin> set (zip senders receivers) \<and>
              hd (T ! r) \<noteq> of_int (NodeType_OBSTACLE common) \<and>
              hd (T ! r) \<noteq> of_int (NodeType_HANDLE common)"
    using world_edge_indices_iff [OF nodes(1) nodes(2) empty mesh, of common] by blast
  have ws: "\<forall>i \<in> set ws. i < length P"
    using l e by (metis in_set_impl_in_set_zip1)
  have wr: "\<forall>i \<in> set wr. i < length P"
    using l e by (metis in_set_impl_in_set_zip2)
  obtain X Y R where world_s: "index_select (Mat P) ws = Inr (Mat X)"
    and world_r: "index_select (Mat P) wr = Inr (Mat Y)"
    and relative_world_pos: "tensor_op (-) (Mat X) (Mat Y) = Inr (Mat R)"
    using difference_of_selected_rows [OF l ws wr nodes(4)] by blast
  obtain X' Y' R' where mesh_s: "index_select (Mat M) senders = Inr (Mat X')"
    and mesh_r: "index_select (Mat M) receivers = Inr (Mat Y')"
    and relative_mesh_pos: "tensor_op (-) (Mat X') (Mat Y') = Inr (Mat R')"
    using difference_of_selected_rows [OF mesh(1) _ _ nodes(5)] mesh nodes(3) by metis
  obtain F where features: "cat_last [Mat R, norm_keepdim (Mat R)] = Inr (Mat F)"
    using cat_with_norm by blast
  have column: "column0 (Mat T) = Inr (map hd T)" using empty by simp
  obtain h where hot: "one_hot (map (to_int64 \<circ> hd) T) (NodeType_SIZE common) = Inr h"
    using one_hot_returns [of "map (to_int64 \<circ> hd) T" "NodeType_SIZE common"] types by auto
  have stage: "deform_world_features common inputs =
      Inr (Mat P, target_world_pos, Mat T, h, senders, receivers, Mat M, Mat R', ws, wr, Mat F)"
    unfolding deform_world_features_def
    by (simp add: getitem_def and_then_def world target node_type cells mesh_pos edges column hot
        mesh_s mesh_r relative_mesh_pos w world_s world_r relative_world_pos features
        del: index_select.simps tensor_op.simps cat_last.simps norm_keepdim.simps column0.simps)
  have "deform_build_graph common self inputs is_training = (self, Inl TypeError)"
    unfolding deform_build_graph_def
    by (simp add: stage then_with_def apply_normalizer_def Normalizer_apply_def)
  with w e show ?thesis by blast
qed

theorem world_edge_set_never_built_witness:
  "(\<exists>ws wr. world_edge_indices common_example
              (Mat [[0, 0, 0], [1 / 1000, 0, 0], [2 / 1000, 0, 0], [1, 0, 0]]) [0, 1] [1, 0]
              (Mat [[0], [0], [1], [0]]) = Inr (ws, wr) \<and>
      (2, 0) \<in> set (zip ws wr) \<and> (2, 1) \<in> set (zip ws wr) \<and>
      (0, 1) \<notin> set (zip ws wr) \<and> (1, 0) \<notin> set (zip ws wr) \<and>
      (0, 2) \<notin> set (zip ws wr) \<and> (1, 2) \<notin> set (zip ws wr) \<and>
      (0, 3) \<notin> set (zip ws wr) \<and> (0, 0) \<notin> set (zip ws wr)) \<and>
   deform_build_graph common_example (deform_example (\<lambda>graph mesh world training. Inr (Mat [])))
     plate_inputs False
     = (deform_example (\<lambda>graph mesh world training. Inr (Mat [])), Inl TypeError)"
proof -
  let ?P = "[[0, 0, 0], [1 / 1000, 0, 0], [2 / 1000, 0, 0], [1, 0, 0 :: real]]"
  let ?T = "[[0], [0], [1], [0 :: real]]"
  let ?M = "[[0, 0, 0], [1, 0, 0], [2, 0, 0], [3, 0, 0 :: real]]"
  let ?self = "deform_example (\<lambda>graph mesh world training. Inr (Mat [])) :: deform_core deform_model"
  have r: "0 < radius" by (simp add: radius_def)
  have "\<exists>ws wr. world_edge_indices common_example (Mat ?P) [0, 1] [1, 0] (Mat ?T) = Inr (ws, wr) \<and>
           (\<forall>s r. (s, r) \<in> set (zip ws wr) \<longleftrightarrow>
              s < length ?P \<and> r < length ?P \<and>
              row_norm (map2 (-) (?P ! s) (?P ! r)) < radius \<and>
              s \<noteq> r \<and>
              (s, r) \<notin> set (zip [0, 1] [1, 0 :: nat]) \<and>
              hd (?T ! r) \<noteq> of_int (NodeType_OBSTACLE common_example) \<and>
              hd (?T ! r) \<noteq> of_int (NodeType_HANDLE common_example)) \<and>
           deform_build_graph common_example ?self plate_inputs False = (?self, Inl TypeError)"
    by (rule world_edge_set_never_built [where target_world_pos = "Mat ?P" and M = ?M
          and cells = "Mat [[0, 1, 2]]"])
      (simp_all add: plate_inputs_def common_example_def to_int64_def)
  then obtain ws wr where w: "world_edge_indices common_example (Mat ?P) [0, 1] [1, 0] (Mat ?T)
       = Inr (ws, wr)"
    and e: "\<And>s r. (s, r) \<in> set (zip ws wr) \<longleftrightarrow>
              s < length ?P \<and> r < length ?P \<and>
              row_norm (map2 (-) (?P ! s) (?P ! r)) < radius \<and>
              s \<noteq> r \<and>
              (s, r) \<notin> set (zip [0, 1] [1, 0 :: nat]) \<and>
              hd (?T ! r) \<noteq> of_int (NodeType_OBSTACLE common_example) \<and>
              hd (?T ! r) \<noteq> of_int (NodeType_HANDLE common_example)"
    and b: "deform_build_graph common_example ?self plate_inputs False = (?self, Inl TypeError)"
    by auto
  have "(2, 0) \<in> set (zip ws wr)" "(2, 1) \<in> set (zip ws wr)"
    "(0, 1) \<notin> set (zip ws wr)" "(1, 0) \<notin> set (zip ws wr)"
    "(0, 2) \<notin> set (zip ws wr)" "(1, 2) \<notin> set (zip ws wr)"
    "(0, 3) \<notin> set (zip ws wr)" "(0, 0) \<notin> set (zip ws wr)"
    unfolding e
    by (simp_all add: row_norm_less [OF r] common_example_def)
      (simp_all add: radius_def power2_eq_square)
  with w b show ?thesis by blast
qed

section \<open>The segment reducer\<close>

lemma scatter_rows:
  "scatter reduce data ids n = Inr r \<Longrightarrow> tensor_size r ! 0 = n"
  by (cases "(reduce, data, ids, n)" rule: scatter.cases) (auto split: if_splits)

lemma scatter_vec_ok:
  assumes "\<forall>i \<in> set ix. 0 \<le> i \<and> i < int n"
  shows "\<exists>r. scatter reduce (Vec a) (IVec ix) n = Inr r"
  using assms by (auto simp: not_le)

lemma scatter_mat_ok:
  assumes "\<forall>row \<in> set IX. \<forall>i \<in> set row. 0 \<le> i \<and> i < int n"
  shows "\<exists>r. scatter reduce (Mat A) (IMat IX) n = Inr r"
proof -
  have "\<not> (\<exists>row \<in> set IX. \<exists>i \<in> set row. i < 0 \<or> int n \<le> i)"
    using assms by (auto simp: not_le not_less)
  then show ?thesis by simp
qed

lemma segment_invalid:
  assumes "operation \<notin> {''sum'', ''mean'', ''max'', ''min''}"
  shows "\<exists>e. unsorted_segment_operation data segment_ids num_segments operation = Inl e"
  using assms by (simp add: unsorted_segment_operation_def Let_def)

lemma segment_rows:
  assumes "unsorted_segment_operation data segment_ids num_segments operation = Inr r"
  shows "0 \<le> num_segments \<and> tensor_size r ! 0 = nat num_segments"
  using assms
  by (auto simp: unsorted_segment_operation_def Let_def scatter_add_def scatter_max_def
      scatter_mean_def scatter_min_def split: if_splits dest: scatter_rows)

lemma segment_returns:
  assumes op: "operation \<in> {''sum'', ''mean'', ''max'', ''min''}"
    and n: "0 \<le> num_segments"
    and len: "length ix = tensor_size data ! 0"
    and ids: "\<forall>i \<in> set ix. 0 \<le> i \<and> i < num_segments"
  shows "\<exists>r. unsorted_segment_operation data (IVec ix) num_segments operation = Inr r"
proof (cases data)
  case (Vec a)
  have "\<forall>i \<in> set ix. 0 \<le> i \<and> i < int (nat num_segments)" using ids n by simp
  from scatter_vec_ok [OF this] show ?thesis
    using op n len Vec
    by (auto simp: unsorted_segment_operation_def Let_def scatter_add_def scatter_max_def
        scatter_mean_def scatter_min_def simp del: scatter.simps)
next
  case (Mat A)
  define w where "w = tensor_size data ! 1"
  have "\<forall>row \<in> set (map (replicate w) ix). \<forall>i \<in> set row. 0 \<le> i \<and> i < int (nat num_segments)"
    using ids n by auto
  from scatter_mat_ok [OF this] have sc: "\<exists>r. scatter reduce (Mat A) (IMat (map (replicate w) ix)) (nat num_segments) = Inr r" for reduce
    by blast
  have size: "tensor_size data = itensor_size (IMat (map (replicate w) ix))"
    using len Mat by (cases ix; cases A) (auto simp: w_def)
  show ?thesis
    using op n len Mat sc size
    by (auto simp: unsorted_segment_operation_def Let_def scatter_add_def scatter_max_def
        scatter_mean_def scatter_min_def w_def simp del: scatter.simps)
qed

lemma segment_invalid_exception:
  assumes op: "operation \<notin> {''sum'', ''mean'', ''max'', ''min''}"
    and n: "0 \<le> num_segments"
    and len: "length ix = tensor_size data ! 0"
  shows "unsorted_segment_operation data (IVec ix) num_segments operation
           = Inl (Exception ''Invalid operation type!'')"
proof (cases data)
  case (Vec a)
  then show ?thesis using op n len by (simp add: unsorted_segment_operation_def Let_def)
next
  case (Mat A)
  have "tensor_size data = itensor_size (IMat (map (replicate (tensor_size data ! 1)) ix))"
    using len Mat by (cases ix; cases A) auto
  then show ?thesis
    using op n len Mat by (simp add: unsorted_segment_operation_def Let_def)
qed

text \<open>
  C8. \<open>unsorted_segment_operation\<close> with an operation name other than \<open>sum\<close>,
  \<open>mean\<close>, \<open>max\<close> and \<open>min\<close> raises, whatever the other arguments, and where the
  shapes of data and rank-one segment ids agree the error is the exception
  \<open>Invalid operation type!\<close>. With one of the four names a result has exactly
  \<open>num_segments\<close> rows, and there is a result where the segment ids are one per row of
  the data and lie in \<open>[0, num_segments)\<close>.
\<close>

theorem segment_reducer_contract:
  "(operation \<notin> {''sum'', ''mean'', ''max'', ''min''} \<longrightarrow>
      (\<exists>e. unsorted_segment_operation data segment_ids num_segments operation = Inl e) \<and>
      (0 \<le> num_segments \<and> length ix = tensor_size data ! 0 \<longrightarrow>
         unsorted_segment_operation data (IVec ix) num_segments operation
           = Inl (Exception ''Invalid operation type!''))) \<and>
   (operation \<in> {''sum'', ''mean'', ''max'', ''min''} \<longrightarrow>
      (\<forall>r. unsorted_segment_operation data segment_ids num_segments operation = Inr r \<longrightarrow>
         0 \<le> num_segments \<and> tensor_size r ! 0 = nat num_segments) \<and>
      (0 \<le> num_segments \<and> length ix = tensor_size data ! 0 \<and>
       (\<forall>i \<in> set ix. 0 \<le> i \<and> i < num_segments) \<longrightarrow>
         (\<exists>r. unsorted_segment_operation data (IVec ix) num_segments operation = Inr r)))"
  using segment_invalid [of operation data segment_ids num_segments]
    segment_invalid_exception [of operation num_segments ix data]
    segment_rows [of data segment_ids num_segments operation]
    segment_returns [of operation num_segments ix data]
  by blast

theorem segment_reducer_contract_witness:
  "unsorted_segment_operation (Vec [1, 5, 3]) (IVec [0, 1, 0]) 2 ''median''
     = Inl (Exception ''Invalid operation type!'') \<and>
   (\<exists>r. unsorted_segment_operation (Vec [1, 5, 3]) (IVec [0, 1, 0]) 2 ''max'' = Inr r \<and>
        tensor_size r ! 0 = 2)"
proof -
  have a: "unsorted_segment_operation (Vec [1, 5, 3]) (IVec [0, 1, 0]) 2 ''median''
     = Inl (Exception ''Invalid operation type!'')"
    using segment_reducer_contract [of "''median''" "Vec [1, 5, 3]" "IVec [0, 1, 0]" 2 "[0, 1, 0]"]
    by simp
  obtain r where r: "unsorted_segment_operation (Vec [1, 5, 3]) (IVec [0, 1, 0]) 2 ''max'' = Inr r"
    using segment_reducer_contract [of "''max''" "Vec [1, 5, 3]" "IVec [0, 1, 0]" 2 "[0, 1, 0]"]
    by auto
  then have "tensor_size r ! 0 = 2"
    using segment_reducer_contract [of "''max''" "Vec [1, 5, 3]" "IVec [0, 1, 0]" 2 "[0, 1, 0]"]
    by auto
  with a r show ?thesis by blast
qed

section \<open>The choice of the core\<close>

text \<open>
  C9. Whenever the constructor of the deforming-plate model returns a model, its core
  module is \<open>encode_process_decode\<close> and its learned core is built by that module's
  \<open>EncodeProcessDecode\<close>; \<open>core_model_name\<close> is stored and nothing more: with any other
  name the constructor returns the same model but for the stored name.
\<close>

theorem deform_init_core:
  assumes "deform_init EncodeProcessDecode params_arg name aggregator steps attention_arg
             ripple_used_arg generation generation_number node_selection
             node_selection_random_top_n node_connection node_ncross = Inr m"
  shows "core_model m = encode_process_decode \<and> core_model_name m = name \<and>
         (\<exists>kwargs. learned_model m = EncodeProcessDecode encode_process_decode kwargs) \<and>
         (\<exists>m'. deform_init EncodeProcessDecode params_arg name' aggregator steps attention_arg
                  ripple_used_arg generation generation_number node_selection
                  node_selection_random_top_n node_connection node_ncross = Inr m' \<and>
               core_model m' = core_model m \<and> learned_model m' = learned_model m \<and>
               m' = m\<lparr>core_model_name := name'\<rparr>)"
  using assms
  by (auto simp: deform_init_def and_then_def Let_def split: sum.splits)

theorem deform_init_core_witness:
  "\<exists>m. deform_init (\<lambda>module kwargs. module)
          [''size'' \<mapsto> PyInt 3, ''model'' \<mapsto> PyObject ''deform_model'']
          (PyStr ''encode_process_decode_hub'') (PyStr ''sum'') (PyInt 15) (PyBool False)
          (PyBool False) PyNone PyNone PyNone PyNone PyNone PyNone = Inr m \<and>
       core_model m = encode_process_decode \<and> learned_model m = encode_process_decode"
proof -
  obtain m where m: "deform_init (\<lambda>module kwargs. module)
          [''size'' \<mapsto> PyInt 3, ''model'' \<mapsto> PyObject ''deform_model'']
          (PyStr ''encode_process_decode_hub'') (PyStr ''sum'') (PyInt 15) (PyBool False)
          (PyBool False) PyNone PyNone PyNone PyNone PyNone PyNone = Inr m"
    by (simp add: deform_init_def and_then_def getitem_def Let_def)
  from deform_init_core [OF m] show ?thesis using m by auto
qed

text \<open>
  C10. \<open>select_core_model\<close> of the cloth model maps every string other than the five
  names of its table to \<open>encode_process_decode\<close>; being a dictionary lookup with a
  default, it raises nothing.
\<close>

theorem select_core_model_default:
  assumes "name \<notin> {''encode_process_decode'', ''encode_process_decode_graph_structure_watcher'',
     ''encode_process_decode_hub'', ''encode_process_decode_max_pooling'',
     ''encode_process_decode_lstm''}"
  shows "select_core_model name = encode_process_decode"
  using assms by (simp add: select_core_model_def)

theorem select_core_model_default_witness:
  "select_core_model ''encode_process_decode_gru'' = encode_process_decode"
  using select_core_model_default [of "''encode_process_decode_gru''"] by simp

end
